theory Spec2Isabelle
  imports Main "HOL-Library.Sublist" "HOL-Library.AList"
begin

section \<open>Package directives of Spack (lib/spack/spack/directives.py)\<close>

text \<open>
  The module defines the directives \<open>version\<close>, \<open>depends_on\<close>, \<open>extends\<close>, \<open>provides\<close>,
  \<open>patch\<close> and \<open>variant\<close>, the decorator class \<open>directive\<close> that registers them, and the
  two exception classes \<open>DirectiveError\<close> and \<open>CircularReferenceError\<close>.

  Every directive body receives the package under definition as its first argument and
  mutates it. The model passes the package as a value and returns it updated, together
  with the exception raised, if any: a result \<open>(Some e, pkg')\<close> means that \<open>e\<close> was raised
  when the package had become \<open>pkg'\<close>, and \<open>(None, pkg')\<close> that the call returned.
\<close>

subsection \<open>Python values\<close>

text \<open>
  Keyword arguments, the \<open>checksum\<close> and \<open>default\<close> arguments and the attributes of a
  package namespace hold arbitrary Python values. Only their type and their truth value
  are ever inspected by the module.
\<close>

datatype pyval =
    PNone
  | PBool bool
  | PInt int
  | PStr string
  | PList "pyval list"
  | PTuple "pyval list"
  | PDict "(pyval \<times> pyval) list"

text \<open>Truth value testing, as \<open>if checksum:\<close> and \<open>bool(default)\<close> do it.\<close>

fun truthy :: "pyval \<Rightarrow> bool" where
  "truthy PNone = False"
| "truthy (PBool b) = b"
| "truthy (PInt i) = (i \<noteq> 0)"
| "truthy (PStr s) = (s \<noteq> [])"
| "truthy (PList xs) = (xs \<noteq> [])"
| "truthy (PTuple xs) = (xs \<noteq> [])"
| "truthy (PDict kvs) = (kvs \<noteq> [])"


text \<open>The printed form of \<open>type(v)\<close> in Python 2, used in one error message.\<close>

fun type_name :: "pyval \<Rightarrow> string" where
  "type_name PNone = ''NoneType''"
| "type_name (PBool b) = ''bool''"
| "type_name (PInt i) = ''int''"
| "type_name (PStr s) = ''str''"
| "type_name (PList xs) = ''list''"
| "type_name (PTuple xs) = ''tuple''"
| "type_name (PDict kvs) = ''dict''"

definition type_repr :: "pyval \<Rightarrow> string" where
  "type_repr v = ''<type '' @ [CHR 0x27] @ type_name v @ [CHR 0x27] @ ''>''"

text \<open>\<open>str.strip()\<close> without arguments removes leading and trailing whitespace.\<close>

definition whitespace :: "char \<Rightarrow> bool" where
  "whitespace c = (c \<in> set [CHR '' '', CHR 0x09, CHR 0x0A, CHR 0x0B, CHR 0x0C, CHR 0x0D])"

definition strip :: "string \<Rightarrow> string" where
  "strip s = rev (dropWhile whitespace (rev (dropWhile whitespace s)))"

text \<open>
  \<open>re.match(pattern, s)\<close> succeeds when the pattern matches at the start of \<open>s\<close>: when
  some prefix of \<open>s\<close> belongs to the language of the pattern. It does not ask the match
  to reach the end of \<open>s\<close>. A pattern is given by the predicate that recognises its
  language.
\<close>

definition re_match :: "(string \<Rightarrow> bool) \<Rightarrow> string \<Rightarrow> bool" where
  "re_match pattern s = list_ex pattern (prefixes s)"

subsection \<open>Exceptions\<close>

text \<open>
  \<open>SpackError(message)\<close> comes from \<open>spack.error\<close>; \<open>DirectiveError(directive, message)\<close>
  and its subclass \<open>CircularReferenceError(directive, package)\<close> are defined by the module.
  \<open>TypeError\<close> is Python's own. \<open>UpstreamError\<close> stands for whatever the spec parser, the
  version parser, the patch constructor or \<open>Spec.constrain\<close> raise; the module never
  catches them.
\<close>

datatype error =
    TypeError string
  | SpackError string
  | DirectiveError string string
  | CircularReferenceError string string
  | UpstreamError string

text \<open>
  The class hierarchy: \<open>CircularReferenceError\<close> is a \<open>DirectiveError\<close>, which is a
  \<open>SpackError\<close>.
\<close>

fun is_DirectiveError :: "error \<Rightarrow> bool" where
  "is_DirectiveError (DirectiveError d m) = True"
| "is_DirectiveError (CircularReferenceError d p) = True"
| "is_DirectiveError e = False"

fun is_SpackError :: "error \<Rightarrow> bool" where
  "is_SpackError (SpackError m) = True"
| "is_SpackError e = is_DirectiveError e"

text \<open>
  The attributes an exception object carries: \<open>self.directive\<close> is set by
  \<open>DirectiveError.__init__\<close>, \<open>self.package\<close> by \<open>CircularReferenceError.__init__\<close>,
  which also builds the message.
\<close>

fun directive_attr :: "error \<Rightarrow> string option" where
  "directive_attr (DirectiveError d m) = Some d"
| "directive_attr (CircularReferenceError d p) = Some d"
| "directive_attr e = None"

fun package_attr :: "error \<Rightarrow> string option" where
  "package_attr (CircularReferenceError d p) = Some p"
| "package_attr e = None"

fun message :: "error \<Rightarrow> string" where
  "message (TypeError m) = m"
| "message (SpackError m) = m"
| "message (DirectiveError d m) = m"
| "message (CircularReferenceError d p) =
     ''Package '' @ [CHR 0x27] @ p @ [CHR 0x27] @ '' cannot pass itself to '' @ d @ ''.''"
| "message (UpstreamError m) = m"

text \<open>
  \<open>DirectiveError.__init__(self, directive, message)\<close> has two required parameters.
  The module calls the class twice with a single argument,
  \<open>raise DirectiveError("...")\<close>, in \<open>extends\<close> and in \<open>variant\<close>. Such a call never
  builds the exception: Python raises \<open>TypeError\<close> at the call, and that is what
  propagates.
\<close>

definition DirectiveError_one_arg :: "string \<Rightarrow> error" where
  "DirectiveError_one_arg a = TypeError ''__init__() takes exactly 3 arguments (2 given)''"

subsection \<open>The external spec, version and patch classes\<close>

text \<open>
  \<open>spack.spec\<close>, \<open>spack.version\<close> and \<open>spack.patch\<close> are imported by the module and are
  not part of it. The model takes them as a parameter: a record of the functions the
  directives call. A function that may raise returns \<open>Inl\<close> of the message.
  \<open>constrain\<close> mutates its receiver in place and may raise after doing so; it returns
  the receiver as it is left, with the exception if there was one. \<open>identifier_re\<close> is the
  language of the regular expression \<open>spack.spec.identifier_re\<close>, taken to be a plain
  pattern, without anchors: the strings it matches from their first to their last
  character.
\<close>

record ('spec, 'ver, 'patch) external =
  Spec :: "string \<Rightarrow> string + 'spec"
  parse_anonymous_spec :: "string \<Rightarrow> string \<Rightarrow> string + 'spec"
  parse :: "string \<Rightarrow> string + 'spec list"
  spec_name :: "'spec \<Rightarrow> string"
  constrain :: "'spec \<Rightarrow> 'spec \<Rightarrow> string option \<times> 'spec"
  Version :: "string \<Rightarrow> string + 'ver"
  Patch :: "string \<Rightarrow> string \<Rightarrow> int \<Rightarrow> string + 'patch"
  identifier_re :: "string \<Rightarrow> bool"

text \<open>\<open>spack.variant.Variant(default, description)\<close> only stores its two arguments.\<close>

record variant_rec =
  var_default :: bool
  var_description :: string

subsection \<open>The package under definition\<close>

text \<open>
  The attributes the six directives read and write. Python dictionaries are maps; the
  keys of \<open>versions\<close>, \<open>provided\<close>, \<open>patches\<close> and of the inner dictionaries of
  \<open>dependencies\<close> are \<open>Version\<close> and \<open>Spec\<close> objects, compared by their own equality,
  which is the equality of the parameter types here.
\<close>

record ('spec, 'ver, 'patch) package =
  name :: string
  versions :: "'ver \<rightharpoonup> (string \<rightharpoonup> pyval)"
  dependencies :: "string \<rightharpoonup> ('spec \<rightharpoonup> 'spec)"
  extendees :: "string \<rightharpoonup> ('spec \<times> (string \<rightharpoonup> pyval))"
  provided :: "'spec \<rightharpoonup> 'spec"
  patches :: "'spec \<rightharpoonup> 'patch list"
  variants :: "string \<rightharpoonup> variant_rec"

subsection \<open>version\<close>

definition version ::
  "('spec, 'ver, 'patch) external \<Rightarrow> ('spec, 'ver, 'patch) package \<Rightarrow> string \<Rightarrow> pyval \<Rightarrow>
   (string \<rightharpoonup> pyval) \<Rightarrow> error option \<times> ('spec, 'ver, 'patch) package" where
  "version ext pkg ver checksum kwargs =
     (let kwargs = (if truthy checksum then kwargs(''md5'' \<mapsto> checksum) else kwargs)
      in case Version ext ver of
           Inl e \<Rightarrow> (Some (UpstreamError e), pkg)
         | Inr v \<Rightarrow> (None, pkg\<lparr>versions := (versions pkg)(v \<mapsto> kwargs)\<rparr>))"

subsection \<open>depends\_on\<close>

text \<open>
  The helper \<open>_depends_on\<close> of the source. \<open>when\<close> is \<open>None\<close> when the caller
  passed no condition. \<open>setdefault\<close> creates the inner dictionary of a dependency name
  on first use. The stored spec is referenced from the dictionary only, so the in-place
  \<open>constrain\<close> is an update of the entry.
\<close>

definition internal_depends_on ::
  "('spec, 'ver, 'patch) external \<Rightarrow> ('spec, 'ver, 'patch) package \<Rightarrow> string \<Rightarrow>
   string option \<Rightarrow> error option \<times> ('spec, 'ver, 'patch) package" where
  "internal_depends_on ext pkg spec when =
     (let when = (case when of None \<Rightarrow> name pkg | Some w \<Rightarrow> w)
      in case parse_anonymous_spec ext when (name pkg) of
           Inl e \<Rightarrow> (Some (UpstreamError e), pkg)
         | Inr when_spec \<Rightarrow>
             (case Spec ext spec of
                Inl e \<Rightarrow> (Some (UpstreamError e), pkg)
              | Inr dep_spec \<Rightarrow>
                  if name pkg = spec_name ext dep_spec
                  then (Some (CircularReferenceError ''depends_on'' (name pkg)), pkg)
                  else
                    (let dep_name = spec_name ext dep_spec;
                         conditions = (case dependencies pkg dep_name of
                                         None \<Rightarrow> Map.empty | Some c \<Rightarrow> c)
                     in (case conditions when_spec of
                           Some stored \<Rightarrow>
                             (case constrain ext stored dep_spec of
                                (r, stored') \<Rightarrow>
                                  (map_option UpstreamError r,
                                   pkg\<lparr>dependencies := (dependencies pkg)
                                          (dep_name \<mapsto> conditions(when_spec \<mapsto> stored'))\<rparr>))
                         | None \<Rightarrow>
                             (None,
                              pkg\<lparr>dependencies := (dependencies pkg)
                                     (dep_name \<mapsto> conditions(when_spec \<mapsto> dep_spec))\<rparr>)))))"

definition depends_on ::
  "('spec, 'ver, 'patch) external \<Rightarrow> ('spec, 'ver, 'patch) package \<Rightarrow> string \<Rightarrow>
   string option \<Rightarrow> error option \<times> ('spec, 'ver, 'patch) package" where
  "depends_on ext pkg spec when = internal_depends_on ext pkg spec when"

subsection \<open>extends\<close>

text \<open>
  \<open>when\<close> is the keyword argument of that name, popped from \<open>kwargs\<close>; \<open>kwargs\<close> is what
  remains. The entry of \<open>extendees\<close> is stored under the spec string as it was passed,
  and holds a spec parsed afresh from that string.
\<close>

definition extends ::
  "('spec, 'ver, 'patch) external \<Rightarrow> ('spec, 'ver, 'patch) package \<Rightarrow> string \<Rightarrow>
   string option \<Rightarrow> (string \<rightharpoonup> pyval) \<Rightarrow> error option \<times> ('spec, 'ver, 'patch) package" where
  "extends ext pkg spec when kwargs =
     (if extendees pkg \<noteq> Map.empty
      then (Some (DirectiveError_one_arg ''Packages can extend at most one other package.''), pkg)
      else
        let when = (case when of None \<Rightarrow> name pkg | Some w \<Rightarrow> w)
        in case internal_depends_on ext pkg spec (Some when) of
             (Some e, pkg') \<Rightarrow> (Some e, pkg')
           | (None, pkg') \<Rightarrow>
               (case Spec ext spec of
                  Inl e \<Rightarrow> (Some (UpstreamError e), pkg')
                | Inr s \<Rightarrow> (None, pkg'\<lparr>extendees := (extendees pkg')(spec \<mapsto> (s, kwargs))\<rparr>)))"

subsection \<open>provides\<close>

text \<open>The inner loop, over the specs parsed from one string.\<close>

fun provides_specs ::
  "('spec, 'ver, 'patch) external \<Rightarrow> 'spec \<Rightarrow> ('spec, 'ver, 'patch) package \<Rightarrow> 'spec list \<Rightarrow>
   error option \<times> ('spec, 'ver, 'patch) package" where
  "provides_specs ext provider_spec pkg [] = (None, pkg)"
| "provides_specs ext provider_spec pkg (provided_spec # rest) =
     (if name pkg = spec_name ext provided_spec
      then (Some (CircularReferenceError ''depends_on'' (name pkg)), pkg)
      else provides_specs ext provider_spec
             (pkg\<lparr>provided := (provided pkg)(provided_spec \<mapsto> provider_spec)\<rparr>) rest)"

text \<open>The outer loop, over the strings passed.\<close>

fun provides_strings ::
  "('spec, 'ver, 'patch) external \<Rightarrow> 'spec \<Rightarrow> ('spec, 'ver, 'patch) package \<Rightarrow> string list \<Rightarrow>
   error option \<times> ('spec, 'ver, 'patch) package" where
  "provides_strings ext provider_spec pkg [] = (None, pkg)"
| "provides_strings ext provider_spec pkg (s # rest) =
     (case parse ext s of
        Inl e \<Rightarrow> (Some (UpstreamError e), pkg)
      | Inr ps \<Rightarrow>
          (case provides_specs ext provider_spec pkg ps of
             (Some e, pkg') \<Rightarrow> (Some e, pkg')
           | (None, pkg') \<Rightarrow> provides_strings ext provider_spec pkg' rest))"

definition provides ::
  "('spec, 'ver, 'patch) external \<Rightarrow> ('spec, 'ver, 'patch) package \<Rightarrow> string list \<Rightarrow>
   string option \<Rightarrow> error option \<times> ('spec, 'ver, 'patch) package" where
  "provides ext pkg specs when =
     (let spec_string = (case when of None \<Rightarrow> name pkg | Some w \<Rightarrow> w)
      in case parse_anonymous_spec ext spec_string (name pkg) of
           Inl e \<Rightarrow> (Some (UpstreamError e), pkg)
         | Inr provider_spec \<Rightarrow> provides_strings ext provider_spec pkg specs)"

subsection \<open>patch\<close>

text \<open>
  \<open>setdefault\<close> runs before the \<open>Patch\<close> object is built, so the list of the condition
  exists even when the constructor raises.
\<close>

definition patch ::
  "('spec, 'ver, 'patch) external \<Rightarrow> ('spec, 'ver, 'patch) package \<Rightarrow> string \<Rightarrow> int \<Rightarrow>
   string option \<Rightarrow> error option \<times> ('spec, 'ver, 'patch) package" where
  "patch ext pkg url_or_filename level when =
     (let when = (case when of None \<Rightarrow> name pkg | Some w \<Rightarrow> w)
      in case parse_anonymous_spec ext when (name pkg) of
           Inl e \<Rightarrow> (Some (UpstreamError e), pkg)
         | Inr when_spec \<Rightarrow>
             (let cur_patches = (case patches pkg when_spec of None \<Rightarrow> [] | Some ps \<Rightarrow> ps)
              in (case Patch ext (name pkg) url_or_filename level of
                    Inl e \<Rightarrow>
                      (Some (UpstreamError e),
                       pkg\<lparr>patches := (patches pkg)(when_spec \<mapsto> cur_patches)\<rparr>)
                  | Inr p \<Rightarrow>
                      (None,
                       pkg\<lparr>patches := (patches pkg)(when_spec \<mapsto> cur_patches @ [p])\<rparr>))))"

subsection \<open>variant\<close>

text \<open>
  \<open>description\<close> is a string, on which \<open>str\<close> is the identity. The name is checked with
  \<open>re.match\<close>, and the failure is reported through a one-argument \<open>DirectiveError\<close>.
\<close>

definition variant ::
  "('spec, 'ver, 'patch) external \<Rightarrow> ('spec, 'ver, 'patch) package \<Rightarrow> string \<Rightarrow> pyval \<Rightarrow>
   string \<Rightarrow> error option \<times> ('spec, 'ver, 'patch) package" where
  "variant ext pkg nm default_arg description =
     (let default_arg = truthy default_arg;
          description = strip description
      in if \<not> re_match (identifier_re ext) nm
         then (Some (DirectiveError_one_arg
                 (''Invalid variant name in '' @ name pkg @ '': '' @ [CHR 0x27] @ nm @ [CHR 0x27])),
               pkg)
         else (None,
               pkg\<lparr>variants := (variants pkg)
                      (nm \<mapsto> \<lparr>var_default = default_arg, var_description = description\<rparr>)\<rparr>))"

subsection \<open>The decorator class and the table of directives\<close>

text \<open>
  A \<open>directive\<close> object holds \<open>self.dicts\<close>, the attribute names its directive needs.
  After \<open>__init__\<close> it is a tuple or a list, only ever iterated over, so the model keeps
  its elements.
\<close>

datatype directive = Directive (dicts: "pyval list")

text \<open>
  \<open>isinstance(dicts, basestring)\<close> and \<open>type(dicts) in (list, tuple)\<close>, and the
  elements an iteration over a list or a tuple yields.
\<close>

fun is_basestring :: "pyval \<Rightarrow> bool" where
  "is_basestring (PStr s) = True"
| "is_basestring v = False"

fun is_list_or_tuple :: "pyval \<Rightarrow> bool" where
  "is_list_or_tuple (PList xs) = True"
| "is_list_or_tuple (PTuple xs) = True"
| "is_list_or_tuple v = False"

fun elements :: "pyval \<Rightarrow> pyval list" where
  "elements (PList xs) = xs"
| "elements (PTuple xs) = xs"
| "elements v = []"

text \<open>
  \<open>directive.__init__(self, dicts=None)\<close>: a string becomes a one-element tuple, a list
  or a tuple is kept as it is, whatever it holds; anything else raises \<open>TypeError\<close>.
\<close>

definition directive_init :: "pyval \<Rightarrow> error + directive" where
  "directive_init dicts_arg =
     (if is_basestring dicts_arg then Inr (Directive [dicts_arg])
      else if \<not> is_list_or_tuple dicts_arg
      then Inl (TypeError (''dicts arg must be list, tuple, or string. Found ''
                            @ type_repr dicts_arg @ ''.''))
      else Inr (Directive (elements dicts_arg)))"



text \<open>
  The module-level table \<open>directives\<close>, from the name of a directive function to its
  \<open>directive\<close> object, in the order in which \<open>directives.items()\<close> yields it, and the
  module-level \<open>ensure_dicts(pkg)\<close>.
\<close>

type_synonym directives = "(string \<times> directive) list"


text \<open>
  \<open>directive.__call__(self, directive_function)\<close> enters the object in the table under
  the name of the function.
\<close>

definition directive_call :: "directive \<Rightarrow> string \<Rightarrow> directives \<Rightarrow> directives" where
  "directive_call self function_name table = AList.update function_name self table"

text \<open>
  \<open>@directive(dicts)\<close> above \<open>def function_name\<close>: the object is built, then called
  on the function. When \<open>__init__\<close> raises, the table has not been touched.

  The function that \<open>__call__\<close> returns in place of the directive body finds the
  namespace among the local variables of its caller, runs \<open>self.ensure_dicts\<close> on it,
  sets \<open>pkg.name\<close> to the name of the calling module and calls the body. The
  inspection of the caller's frame has no counterpart here: the bodies above take the
  package, with its name and its dictionaries, as their first argument.
\<close>

definition decorate :: "directives \<Rightarrow> string \<Rightarrow> pyval \<Rightarrow> error option \<times> directives" where
  "decorate table function_name dicts_arg =
     (case directive_init dicts_arg of
        Inl e \<Rightarrow> (Some e, table)
      | Inr self \<Rightarrow> (None, directive_call self function_name table))"


subsection \<open>A small instance of the external classes\<close>

text \<open>
  Modelled from the spec: the spec, version and patch classes (\<open>spack.spec\<close>,
  \<open>spack.version\<close>, \<open>spack.patch\<close>) are not among the sources; the specification treats
  them as an external resolver that parses strings into constraints with a name, can
  intersect two constraints, and may fail. The instance below is the least that fits:
  a spec is a name with a list of version constraints, written \<open>name@constraint\<close>;
  intersection keeps the constraints of both sides and fails on different names; an
  identifier is a word character followed by word characters and hyphens. It serves to
  run the directives on concrete inputs.
\<close>

datatype toy_spec = ToySpec (toy_name: string) (toy_constraints: "string list")

definition toy_Spec :: "string \<Rightarrow> string + toy_spec" where
  "toy_Spec s =
     (let n = takeWhile (\<lambda>c. c \<noteq> CHR ''@'') s;
          r = dropWhile (\<lambda>c. c \<noteq> CHR ''@'') s
      in if n = [] then Inl ''Invalid spec''
         else Inr (ToySpec n (case r of [] \<Rightarrow> [] | c # v \<Rightarrow> [v])))"

definition toy_constrain :: "toy_spec \<Rightarrow> toy_spec \<Rightarrow> string option \<times> toy_spec" where
  "toy_constrain a b =
     (if toy_name a \<noteq> toy_name b then (Some ''Unsatisfiable spec name'', a)
      else (None, ToySpec (toy_name a) (toy_constraints a @ toy_constraints b)))"

definition word_char :: "char \<Rightarrow> bool" where
  "word_char c =
     (c \<in> set ''abcdefghijklmnopqrstuvwxyzABCDEFGHIJKLMNOPQRSTUVWXYZ0123456789_'')"

fun toy_identifier :: "string \<Rightarrow> bool" where
  "toy_identifier [] = False"
| "toy_identifier (c # cs) = (word_char c \<and> list_all (\<lambda>x. word_char x \<or> x = CHR ''-'') cs)"

definition toy :: "(toy_spec, string, string \<times> string \<times> int) external" where
  "toy =
     \<lparr>Spec = toy_Spec,
      parse_anonymous_spec = (\<lambda>spec_like pkg_name. toy_Spec spec_like),
      parse = (\<lambda>s. case toy_Spec s of Inl e \<Rightarrow> Inl e | Inr p \<Rightarrow> Inr [p]),
      spec_name = toy_name,
      constrain = toy_constrain,
      Version = (\<lambda>s. if s = [] then Inl ''Bad version'' else Inr s),
      Patch = (\<lambda>pkg_name path_or_url level.
                 if level < 0 then Inl ''Patch level needs to be a non-negative integer.''
                 else Inr (pkg_name, path_or_url, level)),
      identifier_re = toy_identifier\<rparr>"

subsection \<open>Properties of a package\<close>

text \<open>
  No dependency is recorded under the package's own name, and no provided spec bears it.
\<close>

definition no_self_reference ::
  "('spec, 'ver, 'patch) external \<Rightarrow> ('spec, 'ver, 'patch) package \<Rightarrow> bool" where
  "no_self_reference ext pkg =
     (dependencies pkg (name pkg) = None \<and>
      (\<forall>p. provided pkg p \<noteq> None \<longrightarrow> spec_name ext p \<noteq> name pkg))"

text \<open>A package on which no directive has run yet.\<close>

definition new_package :: "string \<Rightarrow> ('spec, 'ver, 'patch) package" where
  "new_package n =
     \<lparr>name = n, versions = Map.empty, dependencies = Map.empty, extendees = Map.empty,
      provided = Map.empty, patches = Map.empty, variants = Map.empty\<rparr>"

section \<open>Verification\<close>

subsection \<open>Evaluating the small instance\<close>

lemma toy_simps:
  "Spec toy = toy_Spec"
  "parse_anonymous_spec toy = (\<lambda>spec_like pkg_name. toy_Spec spec_like)"
  "parse toy = (\<lambda>s. case toy_Spec s of Inl e \<Rightarrow> Inl e | Inr p \<Rightarrow> Inr [p])"
  "spec_name toy = toy_name"
  "constrain toy = toy_constrain"
  "Version toy = (\<lambda>s. if s = [] then Inl ''Bad version'' else Inr s)"
  "identifier_re toy = toy_identifier"
  by (simp_all add: toy_def)

lemma toy_Spec_examples:
  "toy_Spec ''bar'' = Inr (ToySpec ''bar'' [])"
  "toy_Spec ''foo@1.0'' = Inr (ToySpec ''foo'' [''1.0''])"
  "toy_Spec ''foo@:2.0'' = Inr (ToySpec ''foo'' ['':2.0''])"
  "toy_Spec ''libelf'' = Inr (ToySpec ''libelf'' [])"
  "toy_Spec ''libelf@0.8'' = Inr (ToySpec ''libelf'' [''0.8''])"
  "toy_Spec ''python'' = Inr (ToySpec ''python'' [])"
  "toy_Spec ''python@2.7'' = Inr (ToySpec ''python'' [''2.7''])"
  "toy_Spec ''py-nose'' = Inr (ToySpec ''py-nose'' [])"
  "toy_Spec ''mpich'' = Inr (ToySpec ''mpich'' [])"
  by (simp_all add: toy_Spec_def)

subsection \<open>Repeated dependencies under one condition\<close>

text \<open>
  C1. Two calls of \<open>depends_on\<close> for the same dependency name under the same condition:
  when the condition is not yet a key for that name, the first call inserts the declared
  constraint as it is, and the second call leaves that one entry, now holding the
  intersection (\<open>constrain\<close>) of the two declared constraints; every other entry is
  untouched.
\<close>

theorem depends_on_same_condition:
  assumes cond: "parse_anonymous_spec ext (case w of None \<Rightarrow> name pkg | Some c \<Rightarrow> c) (name pkg)
                   = Inr when_spec"
    and s1: "Spec ext spec1 = Inr dep1" and s2: "Spec ext spec2 = Inr dep2"
    and n1: "spec_name ext dep1 = dep_name" and n2: "spec_name ext dep2 = dep_name"
    and other: "dep_name \<noteq> name pkg"
    and conds: "conditions = (case dependencies pkg dep_name of None \<Rightarrow> Map.empty | Some c \<Rightarrow> c)"
    and fresh: "conditions when_spec = None"
    and meet: "constrain ext dep1 dep2 = (None, both)"
  shows "depends_on ext pkg spec1 w =
           (None, pkg\<lparr>dependencies := (dependencies pkg)
                                          (dep_name \<mapsto> conditions(when_spec \<mapsto> dep1))\<rparr>) \<and>
         depends_on ext (snd (depends_on ext pkg spec1 w)) spec2 w =
           (None, pkg\<lparr>dependencies := (dependencies pkg)
                                          (dep_name \<mapsto> conditions(when_spec \<mapsto> both))\<rparr>)"
proof -
  let ?pkg1 = "pkg\<lparr>dependencies := (dependencies pkg)
                                        (dep_name \<mapsto> conditions(when_spec \<mapsto> dep1))\<rparr>"
  have first: "depends_on ext pkg spec1 w = (None, ?pkg1)"
    using cond s1 n1 other conds fresh
    by (auto simp: depends_on_def internal_depends_on_def Let_def split: option.splits)
  have cond1: "parse_anonymous_spec ext (case w of None \<Rightarrow> name ?pkg1 | Some c \<Rightarrow> c) (name ?pkg1)
                 = Inr when_spec"
    using cond by (cases w) simp_all
  have second: "depends_on ext ?pkg1 spec2 w =
           (None, pkg\<lparr>dependencies := (dependencies pkg)
                                          (dep_name \<mapsto> conditions(when_spec \<mapsto> both))\<rparr>)"
    using cond1 s2 n2 other meet
    by (simp add: depends_on_def internal_depends_on_def Let_def)
  show ?thesis using first second by simp
qed

theorem depends_on_same_condition_witness:
  "depends_on toy (new_package ''mpileaks'') ''foo@1.0'' (Some ''bar'') =
     (None, (new_package ''mpileaks'')
        \<lparr>dependencies := [''foo'' \<mapsto> [ToySpec ''bar'' [] \<mapsto> ToySpec ''foo'' [''1.0'']]]\<rparr>) \<and>
   depends_on toy (snd (depends_on toy (new_package ''mpileaks'') ''foo@1.0'' (Some ''bar'')))
       ''foo@:2.0'' (Some ''bar'') =
     (None, (new_package ''mpileaks'')
        \<lparr>dependencies := [''foo'' \<mapsto> [ToySpec ''bar'' [] \<mapsto> ToySpec ''foo'' [''1.0'', '':2.0'']]]\<rparr>)"
proof -
  let ?pkg = "new_package ''mpileaks'' :: (toy_spec, string, string \<times> string \<times> int) package"
  have cond: "parse_anonymous_spec toy (case Some ''bar'' of None \<Rightarrow> name ?pkg | Some c \<Rightarrow> c)
                (name ?pkg) = Inr (ToySpec ''bar'' [])"
    by (simp add: toy_simps toy_Spec_examples)
  have s1: "Spec toy ''foo@1.0'' = Inr (ToySpec ''foo'' [''1.0''])"
    and s2: "Spec toy ''foo@:2.0'' = Inr (ToySpec ''foo'' ['':2.0''])"
    by (simp_all add: toy_simps toy_Spec_examples)
  have n1: "spec_name toy (ToySpec ''foo'' [''1.0'']) = ''foo''"
    and n2: "spec_name toy (ToySpec ''foo'' ['':2.0'']) = ''foo''"
    by (simp_all add: toy_simps)
  have other: "''foo'' \<noteq> name ?pkg"
    by (simp add: new_package_def)
  have conds: "Map.empty = (case dependencies ?pkg ''foo'' of None \<Rightarrow> Map.empty | Some c \<Rightarrow> c)"
    by (simp add: new_package_def)
  have fresh: "(Map.empty :: toy_spec \<rightharpoonup> toy_spec) (ToySpec ''bar'' []) = None"
    by simp
  have meet: "constrain toy (ToySpec ''foo'' [''1.0'']) (ToySpec ''foo'' ['':2.0''])
                = (None, ToySpec ''foo'' [''1.0'', '':2.0''])"
    by (simp add: toy_simps toy_constrain_def)
  show ?thesis
    using depends_on_same_condition [OF cond s1 s2 n1 n2 other conds fresh meet]
    by (auto simp add: new_package_def)
qed

subsection \<open>A failed self-reference check leaves the package as it was\<close>

text \<open>
  C10. When \<open>depends_on\<close> raises the self-reference error
  (\<open>CircularReferenceError\<close>), the package after the call equals the package before it:
  the check precedes every write.
\<close>

theorem depends_on_self_unchanged:
  assumes "fst (depends_on ext pkg spec w) = Some (CircularReferenceError d p)"
  shows "snd (depends_on ext pkg spec w) = pkg"
  using assms
  by (auto simp: depends_on_def internal_depends_on_def Let_def
           split: sum.splits option.splits if_splits prod.splits)

theorem depends_on_self_unchanged_witness:
  "fst (depends_on toy (new_package ''libelf'') ''libelf@0.8'' None) =
     Some (CircularReferenceError ''depends_on'' ''libelf'') \<and>
   snd (depends_on toy (new_package ''libelf'') ''libelf@0.8'' None) = new_package ''libelf''"
proof -
  have h: "fst (depends_on toy (new_package ''libelf'') ''libelf@0.8'' None) =
     Some (CircularReferenceError ''depends_on'' ''libelf'')"
    by (simp add: depends_on_def internal_depends_on_def toy_simps toy_Spec_examples
                  new_package_def Let_def)
  show ?thesis using h depends_on_self_unchanged [OF h] by simp
qed

subsection \<open>Versions\<close>



subsection \<open>A package never refers to itself\<close>

text \<open>
  Every directive keeps the name of the package, and none of them enters the package's
  own name among its dependencies or a spec of that name among the provided ones.
\<close>

lemma internal_depends_on_keeps:
  "name (snd (internal_depends_on ext pkg spec w)) = name pkg"
  "provided (snd (internal_depends_on ext pkg spec w)) = provided pkg"
  "extendees (snd (internal_depends_on ext pkg spec w)) = extendees pkg"
  "dependencies pkg (name pkg) = None \<Longrightarrow>
     dependencies (snd (internal_depends_on ext pkg spec w)) (name pkg) = None"
  by (auto simp: internal_depends_on_def Let_def split: sum.splits option.splits prod.splits)

lemma provides_specs_keeps:
  "name (snd (provides_specs ext c pkg ps)) = name pkg"
  "dependencies (snd (provides_specs ext c pkg ps)) = dependencies pkg"
  by (induction ps arbitrary: pkg) auto

lemma provides_specs_provided:
  "\<forall>p. provided pkg p \<noteq> None \<longrightarrow> spec_name ext p \<noteq> name pkg \<Longrightarrow>
   provided (snd (provides_specs ext c pkg ps)) q \<noteq> None \<Longrightarrow> spec_name ext q \<noteq> name pkg"
proof (induction ps arbitrary: pkg)
  case Nil
  then show ?case by simp
next
  case (Cons a ps)
  show ?case
  proof (cases "name pkg = spec_name ext a")
    case True
    with Cons.prems show ?thesis by simp
  next
    case False
    let ?pkg1 = "pkg\<lparr>provided := (provided pkg)(a \<mapsto> c)\<rparr>"
    have inv1: "\<forall>p. provided ?pkg1 p \<noteq> None \<longrightarrow> spec_name ext p \<noteq> name ?pkg1"
      using Cons.prems(1) False by auto
    have "provided (snd (provides_specs ext c ?pkg1 ps)) q \<noteq> None"
      using Cons.prems(2) False by simp
    from Cons.IH [OF inv1 this] show ?thesis by simp
  qed
qed

lemma provides_specs_inv:
  "no_self_reference ext pkg \<Longrightarrow> no_self_reference ext (snd (provides_specs ext c pkg ps))"
  unfolding no_self_reference_def
  using provides_specs_provided [of pkg ext c ps]
  by (auto simp: provides_specs_keeps)

lemma provides_strings_inv:
  "no_self_reference ext pkg \<Longrightarrow> no_self_reference ext (snd (provides_strings ext c pkg ss))"
proof (induction ss arbitrary: pkg)
  case Nil
  then show ?case by simp
next
  case (Cons s ss)
  show ?case
  proof (cases "parse ext s")
    case (Inl e)
    with Cons.prems show ?thesis by simp
  next
    case (Inr ps)
    obtain r pkg1 where run: "provides_specs ext c pkg ps = (r, pkg1)"
      by (cases "provides_specs ext c pkg ps")
    have inv1: "no_self_reference ext pkg1"
      using provides_specs_inv [OF Cons.prems, of c ps] run by simp
    show ?thesis
    proof (cases r)
      case None
      with Inr run Cons.IH [OF inv1] show ?thesis by simp
    next
      case (Some e)
      with Inr run inv1 show ?thesis by simp
    qed
  qed
qed

lemma provides_specs_self:
  "\<exists>p \<in> set ps. spec_name ext p = n \<Longrightarrow> name pkg = n \<Longrightarrow>
   fst (provides_specs ext c pkg ps) = Some (CircularReferenceError ''depends_on'' n)"
proof (induction ps arbitrary: pkg)
  case Nil
  then show ?case by simp
next
  case (Cons a ps)
  show ?case
  proof (cases "name pkg = spec_name ext a")
    case True
    with Cons.prems(2) show ?thesis by simp
  next
    case False
    then have later: "\<exists>p \<in> set ps. spec_name ext p = n"
      using Cons.prems by auto
    have "name (pkg\<lparr>provided := (provided pkg)(a \<mapsto> c)\<rparr>) = n"
      using Cons.prems(2) by simp
    from Cons.IH [OF later this] False show ?thesis by simp
  qed
qed

lemma depends_on_inv:
  "no_self_reference ext pkg \<Longrightarrow> no_self_reference ext (snd (internal_depends_on ext pkg spec w))"
  by (simp add: no_self_reference_def internal_depends_on_keeps)

lemma extends_inv:
  "no_self_reference ext pkg \<Longrightarrow> no_self_reference ext (snd (extends ext pkg spec w kwargs))"
proof -
  assume inv: "no_self_reference ext pkg"
  let ?w = "Some (case w of None \<Rightarrow> name pkg | Some c \<Rightarrow> c)"
  obtain r pkg1 where run: "internal_depends_on ext pkg spec ?w = (r, pkg1)"
    by (cases "internal_depends_on ext pkg spec ?w")
  have "no_self_reference ext pkg1"
    using depends_on_inv [OF inv, of spec ?w] run by simp
  then have "no_self_reference ext (pkg1\<lparr>extendees := e\<rparr>)" for e
    by (simp add: no_self_reference_def)
  then show ?thesis
    using inv run \<open>no_self_reference ext pkg1\<close>
    by (auto simp: extends_def Let_def split: option.splits sum.splits)
qed

lemma simple_inv:
  "no_self_reference ext pkg \<Longrightarrow> no_self_reference ext (snd (version ext pkg ver checksum kwargs))"
  "no_self_reference ext pkg \<Longrightarrow> no_self_reference ext (snd (patch ext pkg url level w))"
  "no_self_reference ext pkg \<Longrightarrow> no_self_reference ext (snd (variant ext pkg nm dflt descr))"
  by (auto simp: no_self_reference_def version_def patch_def variant_def Let_def
           split: sum.splits option.splits)


lemma provides_inv:
  "no_self_reference ext pkg \<Longrightarrow> no_self_reference ext (snd (provides ext pkg specs w))"
  by (auto simp: provides_def Let_def provides_strings_inv split: sum.splits)

text \<open>
  C2 (amended). Naming the package itself: \<open>depends_on\<close> and \<open>provides\<close> called with
  the package's own name raise \<open>CircularReferenceError\<close> carrying that name, and so does
  \<open>extends\<close> when \<open>extendees\<close> is still empty (otherwise \<open>extends\<close> stops earlier, at
  its at-most-one-extension check). After every directive call no key of
  \<open>dependencies\<close> is the package's name and no key of \<open>provided\<close> bears it. The
  external parser is assumed to parse the package's name into a spec of that name, and
  the condition of the call to resolve.
\<close>

theorem self_reference_rejected:
  assumes cond: "parse_anonymous_spec ext (case w of None \<Rightarrow> name pkg | Some c \<Rightarrow> c) (name pkg)
                   = Inr when_spec"
    and self: "Spec ext (name pkg) = Inr self_spec" "spec_name ext self_spec = name pkg"
    and selfs: "parse ext (name pkg) = Inr self_specs"
               "\<exists>p \<in> set self_specs. spec_name ext p = name pkg"
    and inv: "no_self_reference ext pkg"
  shows "(\<exists>d. fst (depends_on ext pkg (name pkg) w) = Some (CircularReferenceError d (name pkg))) \<and>
         (extendees pkg = Map.empty \<longrightarrow>
            (\<exists>d. fst (extends ext pkg (name pkg) w kwargs)
                   = Some (CircularReferenceError d (name pkg)))) \<and>
         (\<exists>d. fst (provides ext pkg [name pkg] w) = Some (CircularReferenceError d (name pkg))) \<and>
         no_self_reference ext (snd (depends_on ext pkg spec1 w1)) \<and>
         no_self_reference ext (snd (extends ext pkg spec2 w2 kwargs2)) \<and>
         no_self_reference ext (snd (provides ext pkg specs3 w3)) \<and>
         no_self_reference ext (snd (version ext pkg ver checksum kwargs4)) \<and>
         no_self_reference ext (snd (patch ext pkg url level w5)) \<and>
         no_self_reference ext (snd (variant ext pkg nm dflt descr))"
proof -
  have dep: "fst (internal_depends_on ext pkg (name pkg) w)
               = Some (CircularReferenceError ''depends_on'' (name pkg))"
    using cond self by (simp add: internal_depends_on_def Let_def)
  have cond': "parse_anonymous_spec ext
                 (case Some (case w of None \<Rightarrow> name pkg | Some c \<Rightarrow> c) of
                    None \<Rightarrow> name pkg | Some c \<Rightarrow> c) (name pkg) = Inr when_spec"
    using cond by simp
  have dep': "internal_depends_on ext pkg (name pkg) (Some (case w of None \<Rightarrow> name pkg | Some c \<Rightarrow> c))
               = (Some (CircularReferenceError ''depends_on'' (name pkg)), pkg)"
    using cond' self by (simp add: internal_depends_on_def Let_def)
  have ext_self: "extendees pkg = Map.empty \<Longrightarrow>
          fst (extends ext pkg (name pkg) w kwargs)
            = Some (CircularReferenceError ''depends_on'' (name pkg))"
    using dep' by (simp add: extends_def Let_def)
  have "fst (provides_specs ext when_spec pkg self_specs)
          = Some (CircularReferenceError ''depends_on'' (name pkg))"
    using provides_specs_self [OF selfs(2) refl] .
  then have prov: "fst (provides ext pkg [name pkg] w)
               = Some (CircularReferenceError ''depends_on'' (name pkg))"
    using cond selfs(1)
    by (cases "provides_specs ext when_spec pkg self_specs")
       (simp add: provides_def Let_def)
  show ?thesis
    using dep ext_self prov inv
    by (simp add: depends_on_def depends_on_inv extends_inv provides_inv simple_inv)
qed

theorem self_reference_rejected_witness:
  "(\<exists>d. fst (depends_on toy (new_package ''libelf'') ''libelf'' None)
          = Some (CircularReferenceError d ''libelf'')) \<and>
   (\<exists>d. fst (extends toy (new_package ''libelf'') ''libelf'' None Map.empty)
          = Some (CircularReferenceError d ''libelf'')) \<and>
   (\<exists>d. fst (provides toy (new_package ''libelf'') [''libelf''] None)
          = Some (CircularReferenceError d ''libelf'')) \<and>
   no_self_reference toy (new_package ''libelf'') \<and>
   no_self_reference toy (snd (depends_on toy (new_package ''libelf'') ''foo@1.0'' (Some ''bar''))) \<and>
   no_self_reference toy (snd (extends toy (new_package ''libelf'') ''python@2.7'' None Map.empty)) \<and>
   no_self_reference toy (snd (provides toy (new_package ''libelf'') [''mpich'', ''libelf''] None)) \<and>
   no_self_reference toy (snd (version toy (new_package ''libelf'') ''1.0'' PNone Map.empty)) \<and>
   no_self_reference toy (snd (patch toy (new_package ''libelf'') ''fix.patch'' 1 None)) \<and>
   no_self_reference toy (snd (variant toy (new_package ''libelf'') ''shared'' (PBool True) ''x''))"
proof -
  let ?pkg = "new_package ''libelf'' :: (toy_spec, string, string \<times> string \<times> int) package"
  have cond: "parse_anonymous_spec toy (case None of None \<Rightarrow> name ?pkg | Some c \<Rightarrow> c) (name ?pkg)
                = Inr (ToySpec ''libelf'' [])"
    by (simp add: toy_simps toy_Spec_examples new_package_def)
  have self: "Spec toy (name ?pkg) = Inr (ToySpec ''libelf'' [])"
    and self_name: "spec_name toy (ToySpec ''libelf'' []) = name ?pkg"
    and selfs: "parse toy (name ?pkg) = Inr [ToySpec ''libelf'' []]"
    and selfs_name: "\<exists>p \<in> set [ToySpec ''libelf'' []]. spec_name toy p = name ?pkg"
    by (simp_all add: toy_simps toy_Spec_examples new_package_def)
  have inv: "no_self_reference toy ?pkg"
    by (simp add: no_self_reference_def new_package_def)
  have empty: "extendees ?pkg = Map.empty"
    by (simp add: new_package_def)
  show ?thesis
    using inv empty
      self_reference_rejected [OF cond self self_name selfs selfs_name inv,
        where kwargs = Map.empty
          and ?spec1.0 = "''foo@1.0''" and ?w1.0 = "Some ''bar''"
          and ?spec2.0 = "''python@2.7''" and ?w2.0 = None and ?kwargs2.0 = Map.empty
          and ?specs3.0 = "[''mpich'', ''libelf'']" and ?w3.0 = None
          and ver = "''1.0''" and checksum = PNone and ?kwargs4.0 = Map.empty
          and url = "''fix.patch''" and level = 1 and ?w5.0 = None
          and nm = "''shared''" and dflt = "PBool True" and descr = "''x''"]
    by (simp add: new_package_def)
qed
text \<open>
  The claim as first stated asks \<open>extends\<close> to raise the self-reference error on every
  package. On a package that already extends another one the call stops before the
  check is reached, with a different exception.
\<close>

theorem extends_self_after_extends_counterexample:
  "fst (extends toy (snd (extends toy (new_package ''py-nose'') ''python'' None Map.empty))
          ''py-nose'' None Map.empty)
     = Some (TypeError ''__init__() takes exactly 3 arguments (2 given)'')"
  by (simp add: extends_def internal_depends_on_def Let_def toy_simps toy_Spec_examples
                new_package_def DirectiveError_one_arg_def)



subsection \<open>At most one extension\<close>

text \<open>
  \<open>extends\<close> on a package whose \<open>extendees\<close> is not empty stops at its first statement.
  The exception that comes out is the \<open>TypeError\<close> of the one-argument
  \<open>DirectiveError\<close> call. Whatever happens, \<open>extendees\<close> never holds two entries.
\<close>

lemma extends_nonempty:
  "extendees pkg \<noteq> Map.empty \<Longrightarrow>
   extends ext pkg spec w kwargs =
     (Some (TypeError ''__init__() takes exactly 3 arguments (2 given)''), pkg)"
  by (simp add: extends_def DirectiveError_one_arg_def)

lemma internal_depends_on_default:
  "internal_depends_on ext pkg spec (Some (case w of None \<Rightarrow> name pkg | Some c \<Rightarrow> c))
     = internal_depends_on ext pkg spec w"
  by (cases w) (simp_all add: internal_depends_on_def)

lemma extends_python:
  "extends toy (new_package ''py-nose'') ''python'' None Map.empty =
     (None, (new_package ''py-nose'')
        \<lparr>dependencies := [''python'' \<mapsto> [ToySpec ''py-nose'' [] \<mapsto> ToySpec ''python'' []]],
         extendees := [''python'' \<mapsto> (ToySpec ''python'' [], Map.empty)]\<rparr>)"
  by (simp add: extends_def internal_depends_on_def Let_def toy_simps toy_Spec_examples
                new_package_def)

lemma extends_python27:
  "extends toy (new_package ''py-nose'') ''python@2.7'' None Map.empty =
     (None, (new_package ''py-nose'')
        \<lparr>dependencies := [''python'' \<mapsto> [ToySpec ''py-nose'' [] \<mapsto> ToySpec ''python'' [''2.7'']]],
         extendees := [''python@2.7'' \<mapsto> (ToySpec ''python'' [''2.7''], Map.empty)]\<rparr>)"
  by (simp add: extends_def internal_depends_on_def Let_def toy_simps toy_Spec_examples
                new_package_def)

lemma extends_at_most_one:
  assumes "\<forall>a b. extendees pkg a \<noteq> None \<longrightarrow> extendees pkg b \<noteq> None \<longrightarrow> a = b"
  shows "\<forall>a b. extendees (snd (extends ext pkg spec w kwargs)) a \<noteq> None \<longrightarrow>
               extendees (snd (extends ext pkg spec w kwargs)) b \<noteq> None \<longrightarrow> a = b"
proof (cases "extendees pkg = Map.empty")
  case False
  with assms show ?thesis by (simp add: extends_nonempty)
next
  case True
  obtain r pkg1 where run: "internal_depends_on ext pkg spec w = (r, pkg1)"
    by (cases "internal_depends_on ext pkg spec w")
  have "extendees pkg1 = Map.empty"
    using internal_depends_on_keeps(3) [of ext pkg spec w] run True by simp
  with True run show ?thesis
    by (auto simp: extends_def Let_def internal_depends_on_default
             split: option.splits sum.splits if_splits)
qed

text \<open>
  C3. A second \<open>extends\<close> on the same package fails, whatever its target. The claim
  names the failure a multiple-extension error, one of the directive errors; the code
  raises \<open>TypeError\<close> instead, because \<open>DirectiveError\<close> is called without its
  \<open>directive\<close> argument. Evaluated on a package that extends \<open>python\<close>: the first call
  returns, the second one raises \<open>TypeError\<close>, which is no \<open>DirectiveError\<close>, and
  leaves the package as the first call made it.
\<close>

theorem extends_twice_raises_TypeError:
  "fst (extends toy (new_package ''py-nose'') ''python'' None Map.empty) = None \<and>
   extends toy (snd (extends toy (new_package ''py-nose'') ''python'' None Map.empty))
       ''python'' None Map.empty =
     (Some (TypeError ''__init__() takes exactly 3 arguments (2 given)''),
      snd (extends toy (new_package ''py-nose'') ''python'' None Map.empty)) \<and>
   \<not> is_DirectiveError (TypeError ''__init__() takes exactly 3 arguments (2 given)'')"
  by (simp add: extends_python extends_nonempty)

text \<open>
  C4. A successful \<open>extends\<close> should run the merge of \<open>depends_on\<close> and record the
  extension in \<open>extendees\<close> under the dependency name taken from the parsed constraint.
  The merge is run, and keys \<open>dependencies\<close> by that name; the entry of \<open>extendees\<close>
  is written under the spec string as it was passed. Evaluated at
  \<open>extends("python@2.7")\<close>: the call returns, \<open>dependencies\<close> has its entry under
  \<open>python\<close>, and \<open>extendees\<close> has none under \<open>python\<close> but one under
  \<open>python@2.7\<close>, holding the constraint and the extra parameters.
\<close>

theorem extends_key_is_spec_string:
  "fst (extends toy (new_package ''py-nose'') ''python@2.7'' None Map.empty) = None \<and>
   dependencies (snd (extends toy (new_package ''py-nose'') ''python@2.7'' None Map.empty))
     ''python'' = Some [ToySpec ''py-nose'' [] \<mapsto> ToySpec ''python'' [''2.7'']] \<and>
   dependencies (snd (extends toy (new_package ''py-nose'') ''python@2.7'' None Map.empty))
     ''python@2.7'' = None \<and>
   extendees (snd (extends toy (new_package ''py-nose'') ''python@2.7'' None Map.empty))
     ''python'' = None \<and>
   extendees (snd (extends toy (new_package ''py-nose'') ''python@2.7'' None Map.empty))
     ''python@2.7'' = Some (ToySpec ''python'' [''2.7''], Map.empty)"
  by (simp add: extends_python27)

subsection \<open>What a directive error carries\<close>

text \<open>
  C6. Every directive failure should carry the name of the directive that was called and
  the name of the package. \<open>provides\<close> called with the package's own name raises a
  \<open>CircularReferenceError\<close> whose \<open>directive\<close> attribute is \<open>depends_on\<close>, not
  \<open>provides\<close>: the raise statement was taken over from \<open>_depends_on\<close> unchanged.
\<close>

theorem provides_self_names_depends_on:
  "fst (provides toy (new_package ''mpich'') [''mpich''] None) =
     Some (CircularReferenceError ''depends_on'' ''mpich'') \<and>
   directive_attr (CircularReferenceError ''depends_on'' ''mpich'') = Some ''depends_on''"
  by (simp add: provides_def toy_simps toy_Spec_examples new_package_def)

subsection \<open>Variants\<close>

text \<open>
  When the name passes the check, \<open>variant\<close> stores the truth value of \<open>default\<close> and
  the stripped description under it, replacing what was there.
\<close>

lemma variant_stores:
  "re_match (identifier_re ext) nm \<Longrightarrow>
   variant ext pkg nm dflt descr =
     (None, pkg\<lparr>variants := (variants pkg)
        (nm \<mapsto> \<lparr>var_default = truthy dflt, var_description = strip descr\<rparr>)\<rparr>)"
  by (simp add: variant_def)

lemma strip_example: "strip '' x '' = ''x''"
  by (simp add: strip_def whitespace_def)

lemma variant_shared_example:
  "variant toy (new_package ''libelf'') ''shared'' (PBool True) '' x '' =
     (None, (new_package ''libelf'')
        \<lparr>variants := [''shared'' \<mapsto> \<lparr>var_default = True, var_description = ''x''\<rparr>]\<rparr>)"
  by (simp add: variant_def re_match_def toy_simps word_char_def strip_example new_package_def)

text \<open>
  C8. A name that does not match the identifier grammar should make \<open>variant\<close> fail with
  a validation error. The check is \<open>re.match\<close>, which is satisfied by a matching
  prefix: \<open>bad name!\<close> is no identifier, yet \<open>bad\<close> is, so the call returns and the
  variant is stored under \<open>bad name!\<close>. A name of which no prefix is an identifier, such
  as \<open>!bad\<close>, does make the call fail, but with the \<open>TypeError\<close> of the one-argument
  \<open>DirectiveError\<close> call.
\<close>

theorem variant_bad_name_accepted:
  "\<not> toy_identifier ''bad name!'' \<and>
   variant toy (new_package ''libelf'') ''bad name!'' (PBool False) [] =
     (None, (new_package ''libelf'')
        \<lparr>variants := [''bad name!'' \<mapsto> \<lparr>var_default = False, var_description = []\<rparr>]\<rparr>) \<and>
   fst (variant toy (new_package ''libelf'') ''!bad'' (PBool False) []) =
     Some (TypeError ''__init__() takes exactly 3 arguments (2 given)'')"
  by (simp add: variant_def re_match_def toy_simps word_char_def strip_def
                DirectiveError_one_arg_def new_package_def)

subsection \<open>Registering a directive\<close>

text \<open>
  C5 (amended). Decorating a function with \<open>directive(dicts)\<close> fails exactly when
  \<open>dicts\<close> is neither a string nor a list nor a tuple; the failure is a \<open>TypeError\<close>
  and leaves the table of directives as it was. A string, and any list or tuple,
  whatever it holds, is accepted, and the table then has the directive under the
  function's name: with the one string for a string, with the elements given otherwise.
\<close>

theorem decorate_checks_container_type:
  "(fst (decorate table nm arg) \<noteq> None) = (\<not> is_basestring arg \<and> \<not> is_list_or_tuple arg) \<and>
   (fst (decorate table nm arg) \<noteq> None \<longrightarrow>
      (\<exists>m. fst (decorate table nm arg) = Some (TypeError m)) \<and>
      snd (decorate table nm arg) = table) \<and>
   (fst (decorate table nm arg) = None \<longrightarrow>
      map_of (snd (decorate table nm arg)) nm =
        Some (Directive (if is_basestring arg then [arg] else elements arg)))"
  by (simp add: decorate_def directive_init_def directive_call_def update_conv')

theorem decorate_checks_container_type_witness:
  "fst (decorate [] ''version'' PNone) \<noteq> None \<and>
   (\<exists>m. fst (decorate [] ''version'' PNone) = Some (TypeError m)) \<and>
   snd (decorate [] ''version'' PNone) = [] \<and>
   fst (decorate [] ''extends'' (PTuple [PStr ''extendees'', PStr ''dependencies''])) = None \<and>
   map_of (snd (decorate [] ''extends'' (PTuple [PStr ''extendees'', PStr ''dependencies''])))
     ''extends'' = Some (Directive [PStr ''extendees'', PStr ''dependencies''])"
proof -
  note bad = decorate_checks_container_type [of "[]" "''version''" PNone]
  note good = decorate_checks_container_type
      [of "[]" "''extends''" "PTuple [PStr ''extendees'', PStr ''dependencies'']"]
  have fails: "fst (decorate [] ''version'' PNone) \<noteq> None"
    using bad by simp
  have returns: "fst (decorate [] ''extends'' (PTuple [PStr ''extendees'', PStr ''dependencies'']))
                   = None"
    using good by simp
  from bad fails good returns show ?thesis by simp
qed

text \<open>
  The claim as first stated has the empty collection, and collections of other things
  than names, rejected. Both are registered.
\<close>

theorem decorate_empty_list_counterexample:
  "decorate [] ''version'' (PList []) = (None, [(''version'', Directive [])]) \<and>
   decorate [] ''version'' (PList [PInt 1]) = (None, [(''version'', Directive [PInt 1])])"
  by (simp add: decorate_def directive_init_def directive_call_def)

subsection \<open>Creating the dictionaries of a package\<close>














end
